theory Spec2Isabelle
  imports Complex_Main "HOL-Library.Char_ord" "HOL-Library.List_Lexorder"
begin

section \<open>Python values used by the wallet tool\<close>

text \<open>
  The program is one Python file, \<^verbatim>\<open>main.py\<close>. Python's unbounded integers are
  \<^typ>\<open>int\<close>, its strings are \<^typ>\<open>string\<close> (the characters are taken to be ASCII code
  points), and every \<^verbatim>\<open>raise\<close> is a value \<open>Inl e\<close> of a sum type. Only the class of
  an exception is kept: the message is text the program prints and never inspects.
\<close>

datatype pyexn =
    InvalidOperation    \<comment> \<open>decimal.InvalidOperation\<close>
  | DecimalOverflow     \<comment> \<open>decimal.Overflow\<close>
  | DivisionByZero      \<comment> \<open>decimal.DivisionByZero\<close>
  | ValueError
  | OverflowError
  | KeyError
  | EOFError
  | RuntimeError
  | ContractLogicError
  | OtherError          \<comment> \<open>any other exception class, e.g. a connection failure\<close>

subsection \<open>Strings: \<^verbatim>\<open>strip\<close>, \<^verbatim>\<open>lower\<close>, \<^verbatim>\<open>isdigit\<close>, \<^verbatim>\<open>int\<close>\<close>

definition is_space :: "char \<Rightarrow> bool" where
  \<comment> \<open>the ASCII characters \<^verbatim>\<open>str.isspace\<close> accepts: TAB..CR, FS..US and the blank\<close>
  "is_space ch = (let n = (of_char ch :: nat) in (9 \<le> n \<and> n \<le> 13) \<or> (28 \<le> n \<and> n \<le> 32))"

definition strip :: "string \<Rightarrow> string" where
  "strip s = rev (dropWhile is_space (rev (dropWhile is_space s)))"

definition lower_char :: "char \<Rightarrow> char" where
  \<comment> \<open>the letters \<^verbatim>\<open>A\<close>..\<^verbatim>\<open>Z\<close> go to \<^verbatim>\<open>a\<close>..\<^verbatim>\<open>z\<close>, every other character stays\<close>
  "lower_char ch =
     (case map_of (zip ''ABCDEFGHIJKLMNOPQRSTUVWXYZ'' ''abcdefghijklmnopqrstuvwxyz'') ch of
        Some l \<Rightarrow> l
      | None \<Rightarrow> ch)"

definition lower :: "string \<Rightarrow> string" where
  "lower s = map lower_char s"

definition is_digit :: "char \<Rightarrow> bool" where
  "is_digit ch = (let n = (of_char ch :: nat) in 48 \<le> n \<and> n \<le> 57)"

definition isdigit :: "string \<Rightarrow> bool" where
  \<comment> \<open>\<^verbatim>\<open>str.isdigit\<close>: at least one character, all of them digits\<close>
  "isdigit s = (s \<noteq> [] \<and> list_all is_digit s)"

definition digit_val :: "char \<Rightarrow> nat" where
  "digit_val ch = of_char ch - 48"

definition nat_of_digits :: "string \<Rightarrow> nat" where
  \<comment> \<open>\<^verbatim>\<open>int(s)\<close> on a string of digits (the empty string reads as 0, as in
      \<^verbatim>\<open>int(intpart + fracpart)\<close> guarded by the parser's look-ahead)\<close>
  "nat_of_digits s = foldl (\<lambda>acc ch. 10 * acc + digit_val ch) 0 s"

definition startswith :: "string \<Rightarrow> string \<Rightarrow> bool" where
  "startswith s p = (take (length p) s = p)"

fun replace_first :: "string \<Rightarrow> string \<Rightarrow> string \<Rightarrow> string" where
  \<comment> \<open>\<^verbatim>\<open>s.replace(p, r, 1)\<close> for a non-empty pattern \<open>p\<close>\<close>
  "replace_first p r [] = []"
| "replace_first p r (c # cs) =
     (if startswith (c # cs) p then r @ drop (length p) (c # cs)
      else c # replace_first p r cs)"

subsection \<open>\<^verbatim>\<open>decimal.Decimal\<close> under the context the program sets\<close>

text \<open>
  \<^verbatim>\<open>decimal.getcontext().prec = 50\<close> (line 54) leaves the rest of the default context:
  rounding half-even, \<open>Emax = 999999\<close>, \<open>Emin = -999999\<close>, no clamping, and the traps
  \<^verbatim>\<open>InvalidOperation\<close>, \<^verbatim>\<open>DivisionByZero\<close> and \<^verbatim>\<open>Overflow\<close>, which turn those
  signals into exceptions. A decimal is a sign, a coefficient and an exponent, or an
  infinity, or a NaN (quiet or signalling); the sign is \<open>True\<close> for negative.
  The operations are those of the standard library's \<^verbatim>\<open>decimal\<close> module, which the
  program calls; rounding is written with \<open>div\<close> and \<open>mod\<close> where the module works on
  the string of digits.
\<close>

datatype decimal =
    Fin bool nat int    \<comment> \<open>\<open>(-1)^sign * coefficient * 10^exponent\<close>\<close>
  | Inf bool
  | NaN bool            \<comment> \<open>\<open>True\<close>: signalling\<close>

definition Emax :: int where "Emax = 999999"
definition Emin :: int where "Emin = - 999999"

definition Etiny :: "nat \<Rightarrow> int" where "Etiny prec = Emin - int prec + 1"
definition Etop :: "nat \<Rightarrow> int" where "Etop prec = Emax - int prec + 1"

fun ndigits :: "nat \<Rightarrow> nat" where
  \<comment> \<open>the length of the coefficient's digit string; \<^verbatim>\<open>'0'\<close> has one digit\<close>
  "ndigits n = (if n < 10 then 1 else Suc (ndigits (n div 10)))"

declare ndigits.simps [simp del]

definition round_half_even :: "nat \<Rightarrow> nat \<Rightarrow> nat" where
  \<comment> \<open>drop the last \<open>d\<close> digits of \<open>c\<close>, rounding to nearest, ties to even\<close>
  "round_half_even c d =
     (let q = c div 10 ^ d; r = c mod 10 ^ d
      in if 2 * r > 10 ^ d \<or> (2 * r = 10 ^ d \<and> odd q) then q + 1 else q)"

definition dec_fix :: "nat \<Rightarrow> bool \<Rightarrow> nat \<Rightarrow> int \<Rightarrow> pyexn + decimal" where
  \<comment> \<open>\<^verbatim>\<open>Decimal._fix(context)\<close> on a finite value: round to \<open>prec\<close> digits and keep the
      exponent within bounds\<close>
  "dec_fix prec sg c e =
     (if c = 0 then Inr (Fin sg 0 (min (max e (Etiny prec)) Emax))
      else
        let exp_min0 = int (ndigits c) + e - int prec in
        if exp_min0 > Etop prec then Inl DecimalOverflow
        else
          let exp_min = (if exp_min0 < Etiny prec then Etiny prec else exp_min0) in
          if e < exp_min then
            let digits = int (ndigits c) + e - exp_min;
                c1 = (if digits < 0 then 1 else c);
                e1 = (if digits < 0 then exp_min - 1 else e);
                coeff = round_half_even c1 (nat (exp_min - e1));
                over = (ndigits coeff > prec);
                coeff' = (if over then coeff div 10 else coeff);
                exp_min' = (if over then exp_min + 1 else exp_min)
            in if exp_min' > Etop prec then Inl DecimalOverflow
               else Inr (Fin sg coeff' exp_min')
          else Inr (Fin sg c e))"

fun dec_mul :: "nat \<Rightarrow> decimal \<Rightarrow> decimal \<Rightarrow> pyexn + decimal" where
  \<comment> \<open>\<^verbatim>\<open>Decimal.__mul__\<close>: a signalling NaN raises, a quiet NaN propagates, infinity
      times zero raises, a finite product is rounded by \<open>dec_fix\<close>\<close>
  "dec_mul prec (NaN s1) b = (if s1 \<or> b = NaN True then Inl InvalidOperation else Inr (NaN False))"
| "dec_mul prec a (NaN s2) = (if s2 then Inl InvalidOperation else Inr (NaN False))"
| "dec_mul prec (Inf s1) (Inf s2) = Inr (Inf (s1 \<noteq> s2))"
| "dec_mul prec (Inf s1) (Fin s2 c2 e2) =
     (if c2 = 0 then Inl InvalidOperation else Inr (Inf (s1 \<noteq> s2)))"
| "dec_mul prec (Fin s1 c1 e1) (Inf s2) =
     (if c1 = 0 then Inl InvalidOperation else Inr (Inf (s1 \<noteq> s2)))"
| "dec_mul prec (Fin s1 c1 e1) (Fin s2 c2 e2) = dec_fix prec (s1 \<noteq> s2) (c1 * c2) (e1 + e2)"

function strip_zeros :: "nat \<Rightarrow> int \<Rightarrow> int \<Rightarrow> nat \<times> int" where
  \<comment> \<open>\<^verbatim>\<open>while exp < ideal_exp and coeff % 10 == 0: coeff //= 10; exp += 1\<close>\<close>
  "strip_zeros coeff ex ideal =
     (if ex < ideal \<and> coeff mod 10 = 0 then strip_zeros (coeff div 10) (ex + 1) ideal
      else (coeff, ex))"
  by pat_completeness auto
termination
  by (relation "measure (\<lambda>(coeff, ex, ideal). nat (ideal - ex))") auto

declare strip_zeros.simps [simp del]

definition dec_div_fin :: "nat \<Rightarrow> bool \<Rightarrow> nat \<Rightarrow> int \<Rightarrow> bool \<Rightarrow> nat \<Rightarrow> int \<Rightarrow> pyexn + decimal" where
  \<comment> \<open>\<^verbatim>\<open>Decimal.__truediv__\<close> on two finite values\<close>
  "dec_div_fin prec s1 c1 e1 s2 c2 e2 =
     (if c2 = 0 then (if c1 = 0 then Inl InvalidOperation else Inl DivisionByZero)
      else if c1 = 0 then dec_fix prec (s1 \<noteq> s2) 0 (e1 - e2)
      else
        let shift = int (ndigits c2) - int (ndigits c1) + int prec + 1;
            ex = e1 - e2 - shift;
            num = (if shift \<ge> 0 then c1 * 10 ^ nat shift else c1);
            den = (if shift \<ge> 0 then c2 else c2 * 10 ^ nat (- shift));
            coeff = num div den;
            remainder = num mod den
        in if remainder \<noteq> 0
           then dec_fix prec (s1 \<noteq> s2) (if coeff mod 5 = 0 then coeff + 1 else coeff) ex
           else (case strip_zeros coeff ex (e1 - e2) of
                   (coeff', ex') \<Rightarrow> dec_fix prec (s1 \<noteq> s2) coeff' ex'))"

definition dec_of_int :: "int \<Rightarrow> decimal" where
  \<comment> \<open>\<^verbatim>\<open>Decimal(n)\<close> for an integer: exact\<close>
  "dec_of_int n = Fin (n < 0) (nat \<bar>n\<bar>) 0"

definition dec_to_int :: "decimal \<Rightarrow> pyexn + int" where
  \<comment> \<open>\<^verbatim>\<open>int(d)\<close>: truncation towards zero; NaN and the infinities raise\<close>
  "dec_to_int d =
     (case d of
        NaN _ \<Rightarrow> Inl ValueError
      | Inf _ \<Rightarrow> Inl OverflowError
      | Fin sg c e \<Rightarrow>
          Inr ((if sg then - 1 else 1) *
               (if e \<ge> 0 then int c * 10 ^ nat e else int (c div 10 ^ nat (- e)))))"

definition dec_eq :: "decimal \<Rightarrow> decimal \<Rightarrow> bool" where
  \<comment> \<open>\<^verbatim>\<open>==\<close> on decimals: numeric equality, whatever the exponents; a NaN equals
      nothing\<close>
  "dec_eq a b =
     (case (a, b) of
        (Fin s1 c1 e1, Fin s2 c2 e2) \<Rightarrow>
          (let m = min e1 e2 in
           (if s1 then - 1 else 1) * int c1 * 10 ^ nat (e1 - m) =
           (if s2 then - 1 else 1) * int c2 * 10 ^ nat (e2 - m))
      | (Inf s1, Inf s2) \<Rightarrow> s1 = s2
      | _ \<Rightarrow> False)"

subsection \<open>Reading a decimal from a string\<close>

text \<open>
  \<^verbatim>\<open>Decimal(s)\<close> strips white space, removes underscores, and matches: an optional
  sign, then digits with an optional fraction (at least one digit in all) and an optional
  exponent, or \<^verbatim>\<open>Inf\<close>/\<^verbatim>\<open>Infinity\<close>, or \<^verbatim>\<open>NaN\<close>/\<^verbatim>\<open>sNaN\<close> with diagnostic digits,
  letters in either case. The conversion is exact; no match raises
  \<^verbatim>\<open>InvalidOperation\<close> (here: \<open>None\<close>). The exponent is read as written, however
  long.
\<close>

definition split_digits :: "string \<Rightarrow> string \<times> string" where
  "split_digits s = (takeWhile is_digit s, dropWhile is_digit s)"

definition parse_exponent :: "string \<Rightarrow> int option" where
  \<comment> \<open>what follows the fraction: nothing, or \<^verbatim>\<open>E\<close>, an optional sign and digits\<close>
  "parse_exponent s =
     (case s of
        [] \<Rightarrow> Some 0
      | c # r \<Rightarrow>
          if lower_char c \<noteq> CHR ''e'' then None
          else (case r of
                  [] \<Rightarrow> None
                | d # r' \<Rightarrow>
                    if d = CHR ''-'' then (if isdigit r' then Some (- int (nat_of_digits r')) else None)
                    else if d = CHR ''+'' then (if isdigit r' then Some (int (nat_of_digits r')) else None)
                    else (if isdigit r then Some (int (nat_of_digits r)) else None)))"

definition parse_number :: "bool \<Rightarrow> string \<Rightarrow> decimal option" where
  "parse_number sg s =
     (let (ip, r1) = split_digits s;
          (fp, r2) = (case r1 of
                        [] \<Rightarrow> ([], r1)
                      | c # r \<Rightarrow> if c = CHR ''.'' then split_digits r else ([], r1))
      in if ip = [] \<and> fp = [] then None
         else (case parse_exponent r2 of
                 None \<Rightarrow> None
               | Some ex \<Rightarrow> Some (Fin sg (nat_of_digits (ip @ fp)) (ex - int (length fp)))))"

definition parse_unsigned :: "bool \<Rightarrow> string \<Rightarrow> decimal option" where
  "parse_unsigned sg s =
     (let l = lower s in
      if l = ''inf'' \<or> l = ''infinity'' then Some (Inf sg)
      else if take 3 l = ''nan'' \<and> list_all is_digit (drop 3 l) then Some (NaN False)
      else if take 4 l = ''snan'' \<and> list_all is_digit (drop 4 l) then Some (NaN True)
      else parse_number sg s)"

definition parse_decimal :: "string \<Rightarrow> decimal option" where
  "parse_decimal s =
     (let t = filter (\<lambda>ch. ch \<noteq> CHR ''_'') (strip s) in
      case t of
        [] \<Rightarrow> None
      | c # r \<Rightarrow>
          if c = CHR ''-'' then parse_unsigned True r
          else if c = CHR ''+'' then parse_unsigned False r
          else parse_unsigned False t)"

section \<open>Unit converter (lines 58-62)\<close>

definition ten_pow_18 :: decimal where
  \<comment> \<open>\<^verbatim>\<open>Decimal(10) ** 18\<close>: an exact power, 19 digits\<close>
  "ten_pow_18 = Fin False (10 ^ 18) 0"

definition to_wei_dec :: "decimal \<Rightarrow> pyexn + int" where
  \<comment> \<open>\<^verbatim>\<open>int(d * Decimal(10) ** 18)\<close>\<close>
  "to_wei_dec d =
     (case dec_mul 50 d ten_pow_18 of Inl ex \<Rightarrow> Inl ex | Inr p \<Rightarrow> dec_to_int p)"

definition to_wei :: "string \<Rightarrow> pyexn + int" where
  \<comment> \<open>\<^verbatim>\<open>int(Decimal(str(amount_ctxc)) * Decimal(10) ** 18)\<close>, on a string\<close>
  "to_wei amount_ctxc =
     (case parse_decimal amount_ctxc of
        None \<Rightarrow> Inl InvalidOperation
      | Some d \<Rightarrow> to_wei_dec d)"

definition from_wei :: "int \<Rightarrow> pyexn + decimal" where
  \<comment> \<open>\<^verbatim>\<open>Decimal(wei_amount) / Decimal(10) ** 18\<close>\<close>
  "from_wei wei_amount =
     (case dec_of_int wei_amount of
        Fin s c e \<Rightarrow> dec_div_fin 50 s c e False (10 ^ 18) 0
      | _ \<Rightarrow> Inl InvalidOperation)"



definition dval :: "nat \<Rightarrow> int \<Rightarrow> real" where
  "dval c e = real c * 10 powi e"

section \<open>The network client and the signing library\<close>

text \<open>
  The \<^verbatim>\<open>w3\<close> object every function receives is the program's only access to the
  node. Its queries are a record of answers, each an exception or a value; the
  quantities a node reports (balance, nonce, gas price, priority fee, base fee) are
  unsigned, hence \<^typ>\<open>nat\<close>. \<^verbatim>\<open>get_block_latest\<close> is
  \<^verbatim>\<open>w3.eth.get_block("latest").get("baseFeePerGas")\<close>: the base fee of the latest
  block, \<open>None\<close> when the block has no such field.
\<close>

record account =
  address :: string
  key :: string

record tx =
  tx_from :: string
  tx_to :: string
  tx_value :: int
  tx_nonce :: int
  tx_gas :: int
  gasPrice :: "int option"
  maxFeePerGas :: "int option"
  maxPriorityFeePerGas :: "int option"
  chainId :: int

record signed_tx =
  rawTransaction :: "string option"      \<comment> \<open>the attribute's value, \<open>None\<close> when absent\<close>
  raw_transaction :: "string option"

record web3 =
  to_checksum_address :: "string \<Rightarrow> pyexn + string"
  get_balance :: "string \<Rightarrow> pyexn + nat"
  get_transaction_count :: "string \<Rightarrow> pyexn + nat"
  get_block_latest :: "pyexn + nat option"
  max_priority_fee :: "pyexn + nat"
  gas_price :: "pyexn + nat"
  sign_transaction :: "tx \<Rightarrow> string \<Rightarrow> pyexn + signed_tx"
  send_raw_transaction :: "string \<Rightarrow> pyexn + string"

subsection \<open>The library's unit conversions\<close>

text \<open>
  \<^verbatim>\<open>w3.to_wei\<close> and \<^verbatim>\<open>w3.from_wei\<close> are pure functions of the web3 library: they
  scale by the unit and refuse a result outside \<open>0 .. 2^256 - 1\<close>.
\<close>

definition MAX_WEI :: int where "MAX_WEI = 2 ^ 256 - 1"

definition dec_exceeds :: "decimal \<Rightarrow> int \<Rightarrow> bool" where
  \<comment> \<open>\<open>d > n\<close> for a finite non-negative \<open>d\<close> and \<open>n \<ge> 0\<close>\<close>
  "dec_exceeds d n =
     (case d of
        Fin sg c e \<Rightarrow>
          if e \<ge> 0 then int c * 10 ^ nat e > n
          else int (c div 10 ^ nat (- e)) > n \<or>
               (int (c div 10 ^ nat (- e)) = n \<and> c mod 10 ^ nat (- e) \<noteq> 0)
      | _ \<Rightarrow> True)"

definition web3_to_wei_gwei :: "decimal \<Rightarrow> pyexn + int" where
  \<comment> \<open>\<^verbatim>\<open>w3.to_wei(number, "gwei")\<close>: zero gives 0; otherwise the number times
      \<open>10^9\<close>, computed with 999 digits, must lie in \<open>0 .. 2^256 - 1\<close>
      (\<^verbatim>\<open>ValueError\<close> if not) and is truncated to an integer. A NaN fails in the
      comparison with \<^verbatim>\<open>InvalidOperation\<close>.\<close>
  "web3_to_wei_gwei d =
     (case d of
        NaN _ \<Rightarrow> Inl InvalidOperation
      | Inf _ \<Rightarrow> Inl ValueError
      | Fin sg c e \<Rightarrow>
          if c = 0 then Inr 0
          else (case dec_fix 999 sg (c * 10 ^ 9) e of
                  Inl ex \<Rightarrow> Inl ex
                | Inr r \<Rightarrow>
                    (case r of
                       Fin sg' c' e' \<Rightarrow>
                         if (sg' \<and> c' \<noteq> 0) \<or> dec_exceeds (Fin False c' e') MAX_WEI
                         then Inl ValueError
                         else dec_to_int r
                     | _ \<Rightarrow> Inl ValueError)))"

definition web3_from_wei_gwei :: "int \<Rightarrow> pyexn + unit" where
  \<comment> \<open>\<^verbatim>\<open>w3.from_wei(number, "gwei")\<close>: the result is only printed; outside
      \<open>0 .. 2^256 - 1\<close> the call raises\<close>
  "web3_from_wei_gwei n =
     (if n = 0 then Inr ()
      else if n < 0 \<or> n > MAX_WEI then Inl ValueError
      else Inr ())"

section \<open>Key registry: \<^verbatim>\<open>load_accounts\<close> (lines 98-126)\<close>

text \<open>
  \<^verbatim>\<open>os.environ\<close> is a list of (name, value) pairs in the dictionary's order, with
  distinct names; \<^verbatim>\<open>Account.from_key\<close>, the key derivation of the signing library,
  is a parameter. The registry is a Python \<^verbatim>\<open>dict\<close>: an association list in
  insertion order, where assigning to an existing key replaces its value in place.
  The warnings printed to \<^verbatim>\<open>stderr\<close> are returned as a list, each the variable's
  name and the exception.
\<close>

fun dict_set :: "(string \<times> 'a) list \<Rightarrow> string \<Rightarrow> 'a \<Rightarrow> (string \<times> 'a) list" where
  "dict_set [] k v = [(k, v)]"
| "dict_set ((k', v') # d) k v =
     (if k' = k then (k, v) # d else (k', v') # dict_set d k v)"

definition getenv :: "(string \<times> string) list \<Rightarrow> string \<Rightarrow> string option" where
  "getenv environ name = map_of environ name"

definition derive_account ::
  "web3 \<Rightarrow> (string \<Rightarrow> pyexn + account) \<Rightarrow> string \<Rightarrow> pyexn + account" where
  \<comment> \<open>the body of both \<^verbatim>\<open>try\<close> blocks: derive the account, validate its address\<close>
  "derive_account w3 from_key v =
     (case from_key v of
        Inl ex \<Rightarrow> Inl ex
      | Inr acct \<Rightarrow>
          (case to_checksum_address w3 (address acct) of
             Inl ex \<Rightarrow> Inl ex
           | Inr _ \<Rightarrow> Inr acct))"

type_synonym registry = "(string \<times> account) list \<times> (string \<times> pyexn) list"

definition load_legacy ::
  "web3 \<Rightarrow> (string \<Rightarrow> pyexn + account) \<Rightarrow> (string \<times> string) list \<Rightarrow> registry" where
  \<comment> \<open>lines 103-111\<close>
  "load_legacy w3 from_key environ =
     (case getenv environ ''CTXC_PRIVATE_KEY'' of
        None \<Rightarrow> ([], [])
      | Some legacy \<Rightarrow>
          if legacy = [] then ([], [])
          else (case derive_account w3 from_key legacy of
                  Inr acct \<Rightarrow> (dict_set [] ''LEGACY'' acct, [])
                | Inl ex \<Rightarrow> ([], [(''CTXC_PRIVATE_KEY'', ex)])))"

definition cred_name :: "string \<Rightarrow> string" where
  \<comment> \<open>\<^verbatim>\<open>k.replace("CTXC_PK_", "", 1).strip()\<close>\<close>
  "cred_name k = strip (replace_first ''CTXC_PK_'' [] k)"

definition load_named ::
  "web3 \<Rightarrow> (string \<Rightarrow> pyexn + account) \<Rightarrow> string \<times> string \<Rightarrow> registry \<Rightarrow> registry" where
  \<comment> \<open>one round of the loop of lines 113-124\<close>
  "load_named w3 from_key kv reg =
     (case kv of (k, v) \<Rightarrow>
        if \<not> startswith k ''CTXC_PK_'' then reg
        else
          let name = cred_name k in
          if name = [] \<or> v = [] then reg
          else (case derive_account w3 from_key v of
                  Inr acct \<Rightarrow> (dict_set (fst reg) name acct, snd reg)
                | Inl ex \<Rightarrow> (fst reg, snd reg @ [(k, ex)])))"

definition load_accounts ::
  "web3 \<Rightarrow> (string \<Rightarrow> pyexn + account) \<Rightarrow> (string \<times> string) list \<Rightarrow> registry" where
  \<comment> \<open>the result: \<^verbatim>\<open>dict(sorted(accounts.items(), key=lambda x: x[0].lower()))\<close>, a
      stable sort, and the warnings\<close>
  "load_accounts w3 from_key environ =
     (let reg = fold (load_named w3 from_key) environ (load_legacy w3 from_key environ)
      in (sort_key (\<lambda>x. lower (fst x)) (fst reg), snd reg))"

text \<open>
  To state what the registry holds: the credentials \<open>load_accounts\<close> tries, in the
  order it tries them, each with the name it is registered under, the variable it comes
  from and its value (a variable with an empty name or an empty value is not tried);
  those it accepts; and those it rejects, with the exception.
\<close>

definition legacy_candidate :: "(string \<times> string) list \<Rightarrow> (string \<times> string \<times> string) list" where
  "legacy_candidate environ =
     (case getenv environ ''CTXC_PRIVATE_KEY'' of
        None \<Rightarrow> []
      | Some v \<Rightarrow> if v = [] then [] else [(''LEGACY'', ''CTXC_PRIVATE_KEY'', v)])"

definition named_candidates :: "(string \<times> string) list \<Rightarrow> (string \<times> string \<times> string) list" where
  "named_candidates environ =
     map (\<lambda>(k, v). (cred_name k, k, v))
       (filter (\<lambda>(k, v). startswith k ''CTXC_PK_'' \<and> cred_name k \<noteq> [] \<and> v \<noteq> []) environ)"

definition candidates :: "(string \<times> string) list \<Rightarrow> (string \<times> string \<times> string) list" where
  "candidates environ = legacy_candidate environ @ named_candidates environ"

definition accepted ::
  "web3 \<Rightarrow> (string \<Rightarrow> pyexn + account) \<Rightarrow> (string \<times> string \<times> string) list \<Rightarrow> (string \<times> account) list" where
  "accepted w3 from_key cands =
     concat (map (\<lambda>(n, k, v). case derive_account w3 from_key v of
                                 Inr acct \<Rightarrow> [(n, acct)] | Inl _ \<Rightarrow> []) cands)"

definition rejected ::
  "web3 \<Rightarrow> (string \<Rightarrow> pyexn + account) \<Rightarrow> (string \<times> string \<times> string) list \<Rightarrow> (string \<times> pyexn) list" where
  "rejected w3 from_key cands =
     concat (map (\<lambda>(n, k, v). case derive_account w3 from_key v of
                                 Inr _ \<Rightarrow> [] | Inl ex \<Rightarrow> [(k, ex)]) cands)"

section \<open>Fee selection and transaction building: \<^verbatim>\<open>build_tx\<close> (lines 285-319)\<close>

datatype fee_model = Legacy | Eip1559

definition two_gwei :: "pyexn + int" where
  \<comment> \<open>\<^verbatim>\<open>w3.to_wei(2, "gwei")\<close>\<close>
  "two_gwei = web3_to_wei_gwei (Fin False 2 0)"

definition select_priority :: "web3 \<Rightarrow> decimal option \<Rightarrow> pyexn + int" where
  \<comment> \<open>lines 293-299: the query is inside a \<^verbatim>\<open>try\<close>, the conversion of an explicit
      tip is not\<close>
  "select_priority w3 tip_gwei =
     (case tip_gwei of
        None \<Rightarrow> (case max_priority_fee w3 of Inl _ \<Rightarrow> two_gwei | Inr p \<Rightarrow> Inr (int p))
      | Some t \<Rightarrow> web3_to_wei_gwei t)"

definition select_gas_price :: "web3 \<Rightarrow> pyexn + int" where
  \<comment> \<open>lines 302-305\<close>
  "select_gas_price w3 = (case gas_price w3 of Inl _ \<Rightarrow> two_gwei | Inr g \<Rightarrow> Inr (int g))"

definition build_tx ::
  "web3 \<Rightarrow> string \<Rightarrow> string \<Rightarrow> int \<Rightarrow> int \<Rightarrow> int \<Rightarrow> decimal option \<Rightarrow> pyexn + tx \<times> fee_model" where
  "build_tx w3 from_addr to_addr value_wei nonce chain_id tip_gwei =
     (let GAS_LIMIT_TRANSFER = 21000;
          base_fee = (case get_block_latest w3 of Inl _ \<Rightarrow> None | Inr b \<Rightarrow> b)
      in case select_priority w3 tip_gwei of
           Inl ex \<Rightarrow> Inl ex
         | Inr priority \<Rightarrow>
             (case base_fee of
                None \<Rightarrow>
                  (case select_gas_price w3 of
                     Inl ex \<Rightarrow> Inl ex
                   | Inr gas_price' \<Rightarrow>
                       Inr (\<lparr>tx_from = from_addr, tx_to = to_addr, tx_value = value_wei,
                             tx_nonce = nonce, tx_gas = GAS_LIMIT_TRANSFER,
                             gasPrice = Some gas_price', maxFeePerGas = None,
                             maxPriorityFeePerGas = None, chainId = chain_id\<rparr>, Legacy))
              | Some b \<Rightarrow>
                  (let max_fee = int b * 2 + priority
                   in Inr (\<lparr>tx_from = from_addr, tx_to = to_addr, tx_value = value_wei,
                            tx_nonce = nonce, tx_gas = GAS_LIMIT_TRANSFER,
                            gasPrice = None, maxFeePerGas = Some max_fee,
                            maxPriorityFeePerGas = Some priority, chainId = chain_id\<rparr>,
                           Eip1559))))"

section \<open>Submission: \<^verbatim>\<open>fav_pick\<close> and \<^verbatim>\<open>send_ctxc\<close> (lines 263-282, 321-409)\<close>

text \<open>
  \<^verbatim>\<open>input()\<close> takes the next line of a list of lines and raises \<^verbatim>\<open>EOFError\<close>
  when none is left. What the program prints is not modelled; what it does is: the
  result names the message it ends with, and the calls that sign and broadcast are
  recorded in order. The favourites file is the dictionary \<^verbatim>\<open>fav_load()\<close> returns.
  The balance query of lines 324-330 only builds the prompt, inside a
  \<^verbatim>\<open>try\<close> that swallows every failure, and is left out.
\<close>

datatype outcome =
    NothingPicked          \<comment> \<open>"Tidak ada yang dipilih."\<close>
  | InvalidAddress         \<comment> \<open>"Alamat tujuan tidak valid."\<close>
  | InvalidAmount          \<comment> \<open>"Nominal tidak valid."\<close>
  | InsufficientFunds      \<comment> \<open>"ERROR: Saldo tidak cukup untuk nilai + fee estimasi."\<close>
  | UserCancelled          \<comment> \<open>"Dibatalkan."\<close>
  | SendError pyexn        \<comment> \<open>"ERROR kirim transaksi: ...", signing or broadcast\<close>
  | Sent string            \<comment> \<open>"Transaksi dikirim!", with the transaction hash\<close>
  | Raised pyexn           \<comment> \<open>an exception no handler catches leaves the function\<close>

datatype event = SignCall tx | BroadcastCall string

definition fav_pick ::
  "web3 \<Rightarrow> (string \<times> string) list \<Rightarrow> string list \<Rightarrow> pyexn + string option \<times> string list" where
  "fav_pick w3 favs stdin =
     (if favs = [] then Inr (None, stdin)
      else (case stdin of
              [] \<Rightarrow> Inl EOFError
            | line # rest \<Rightarrow>
                let raw = strip line in
                if raw = [] then Inr (None, rest)
                else if isdigit raw then
                  (let idx = int (nat_of_digits raw) - 1 in
                   if 0 \<le> idx \<and> idx < int (length favs)
                   then (case to_checksum_address w3 (snd (favs ! nat idx)) of
                           Inl ex \<Rightarrow> Inl ex
                         | Inr a \<Rightarrow> Inr (Some a, rest))
                   else Inr (None, rest))
                else (case map_of favs raw of
                        Some a0 \<Rightarrow>
                          (case to_checksum_address w3 a0 of
                             Inl ex \<Rightarrow> Inl ex
                           | Inr a \<Rightarrow> Inr (Some a, rest))
                      | None \<Rightarrow> Inr (None, rest))))"

definition pick_destination ::
  "web3 \<Rightarrow> (string \<times> string) list \<Rightarrow> string list \<Rightarrow> outcome + string \<times> string list" where
  \<comment> \<open>lines 332-346\<close>
  "pick_destination w3 favs stdin =
     (case stdin of
        [] \<Rightarrow> Inl (Raised EOFError)
      | line # rest \<Rightarrow>
          let choice = (if strip line = [] then ''2'' else strip line) in
          if choice = ''1'' then
            (case fav_pick w3 favs rest of
               Inl ex \<Rightarrow> Inl (Raised ex)
             | Inr (picked, rest') \<Rightarrow>
                 (case picked of
                    None \<Rightarrow> Inl NothingPicked
                  | Some a \<Rightarrow> if a = [] then Inl NothingPicked else Inr (a, rest')))
          else
            (case rest of
               [] \<Rightarrow> Inl (Raised EOFError)
             | line2 # rest' \<Rightarrow>
                 (case to_checksum_address w3 (strip line2) of
                    Inl _ \<Rightarrow> Inl InvalidAddress
                  | Inr a \<Rightarrow> Inr (a, rest'))))"

definition read_amount :: "string \<Rightarrow> outcome + int" where
  \<comment> \<open>lines 348-352: whatever \<open>to_wei\<close> raises is reported as an invalid amount\<close>
  "read_amount line =
     (case to_wei (strip line) of Inl _ \<Rightarrow> Inl InvalidAmount | Inr value_wei \<Rightarrow> Inr value_wei)"

definition read_tip :: "string \<Rightarrow> decimal option" where
  \<comment> \<open>lines 354-360: an empty or unreadable priority fee means automatic\<close>
  "read_tip line = (let tip_in = strip line in if tip_in = [] then None else parse_decimal tip_in)"

definition estimated_fee :: "tx \<Rightarrow> pyexn + int" where
  \<comment> \<open>lines 365-370, with the conversion made for the display\<close>
  "estimated_fee t =
     (case gasPrice t of
        Some g \<Rightarrow>
          (case web3_from_wei_gwei g of Inl ex \<Rightarrow> Inl ex | Inr _ \<Rightarrow> Inr (tx_gas t * g))
      | None \<Rightarrow>
          (case maxFeePerGas t of
             None \<Rightarrow> Inl KeyError
           | Some m \<Rightarrow>
               (case maxPriorityFeePerGas t of
                  None \<Rightarrow> Inl KeyError
                | Some p \<Rightarrow>
                    (case web3_from_wei_gwei p of
                       Inl ex \<Rightarrow> Inl ex
                     | Inr _ \<Rightarrow> Inr (tx_gas t * m)))))"

definition print_summary :: "int \<Rightarrow> int \<Rightarrow> int \<Rightarrow> int \<Rightarrow> pyexn + unit" where
  \<comment> \<open>lines 375-388: the amounts are converted for display with \<open>from_wei\<close>, in this
      order; a conversion that raises leaves the function\<close>
  "print_summary value_wei est_fee balance total_needed =
     (case from_wei value_wei of Inl ex \<Rightarrow> Inl ex | Inr _ \<Rightarrow>
      (case from_wei est_fee of Inl ex \<Rightarrow> Inl ex | Inr _ \<Rightarrow>
       (case from_wei balance of Inl ex \<Rightarrow> Inl ex | Inr _ \<Rightarrow>
        (case from_wei total_needed of Inl ex \<Rightarrow> Inl ex | Inr _ \<Rightarrow> Inr ()))))"

record checked =
  c_tx :: tx
  c_value_wei :: int
  c_est_fee :: int
  c_balance :: int
  c_stdin :: "string list"

definition prepare ::
  "web3 \<Rightarrow> (string \<times> string) list \<Rightarrow> account \<Rightarrow> int \<Rightarrow> string list \<Rightarrow> outcome + checked" where
  \<comment> \<open>lines 322-388: everything up to the comparison of the balance\<close>
  "prepare w3 favs acct chain_id stdin =
     (case to_checksum_address w3 (address acct) of
        Inl ex \<Rightarrow> Inl (Raised ex)
      | Inr from_addr \<Rightarrow>
     (case pick_destination w3 favs stdin of
        Inl out \<Rightarrow> Inl out
      | Inr (to_addr, stdin1) \<Rightarrow>
     (case stdin1 of
        [] \<Rightarrow> Inl (Raised EOFError)
      | amount_line # stdin2 \<Rightarrow>
     (case read_amount amount_line of
        Inl out \<Rightarrow> Inl out
      | Inr value_wei \<Rightarrow>
     (case stdin2 of
        [] \<Rightarrow> Inl (Raised EOFError)
      | tip_line # stdin3 \<Rightarrow>
     (case get_transaction_count w3 from_addr of
        Inl ex \<Rightarrow> Inl (Raised ex)
      | Inr nonce \<Rightarrow>
     (case build_tx w3 from_addr to_addr value_wei (int nonce) chain_id (read_tip tip_line) of
        Inl ex \<Rightarrow> Inl (Raised ex)
      | Inr (t, fee_model) \<Rightarrow>
     (case estimated_fee t of
        Inl ex \<Rightarrow> Inl (Raised ex)
      | Inr est_fee \<Rightarrow>
     (case get_balance w3 from_addr of
        Inl ex \<Rightarrow> Inl (Raised ex)
      | Inr balance \<Rightarrow>
     (case print_summary value_wei est_fee (int balance) (value_wei + est_fee) of
        Inl ex \<Rightarrow> Inl (Raised ex)
      | Inr _ \<Rightarrow>
          Inr \<lparr>c_tx = t, c_value_wei = value_wei, c_est_fee = est_fee,
               c_balance = int balance, c_stdin = stdin3\<rparr>))))))))))"

definition extract_raw :: "signed_tx \<Rightarrow> string option" where
  \<comment> \<open>\<^verbatim>\<open>getattr(signed, "rawTransaction", None) or getattr(signed, "raw_transaction", None)\<close>:
      empty bytes count as false\<close>
  "extract_raw signed =
     (case rawTransaction signed of
        None \<Rightarrow> raw_transaction signed
      | Some r \<Rightarrow> if r = [] then raw_transaction signed else Some r)"

definition send_handler :: "pyexn \<Rightarrow> outcome" where
  \<comment> \<open>\<^verbatim>\<open>except (ValueError, ContractLogicError, RuntimeError)\<close>\<close>
  "send_handler ex =
     (if ex = ValueError \<or> ex = ContractLogicError \<or> ex = RuntimeError then SendError ex
      else Raised ex)"

definition submit :: "web3 \<Rightarrow> account \<Rightarrow> checked \<Rightarrow> outcome \<times> event list" where
  \<comment> \<open>lines 390-409\<close>
  "submit w3 acct ck =
     (let total_needed = c_value_wei ck + c_est_fee ck in
      if c_balance ck < total_needed then (InsufficientFunds, [])
      else (case c_stdin ck of
              [] \<Rightarrow> (Raised EOFError, [])
            | line # _ \<Rightarrow>
                let y = lower (strip line) in
                if y \<noteq> ''ya'' then (UserCancelled, [])
                else (case sign_transaction w3 (c_tx ck) (key acct) of
                        Inl ex \<Rightarrow> (send_handler ex, [SignCall (c_tx ck)])
                      | Inr signed \<Rightarrow>
                          (case extract_raw signed of
                             None \<Rightarrow> (SendError RuntimeError, [SignCall (c_tx ck)])
                           | Some raw \<Rightarrow>
                               (case send_raw_transaction w3 raw of
                                  Inl ex \<Rightarrow>
                                    (send_handler ex, [SignCall (c_tx ck), BroadcastCall raw])
                                | Inr tx_hash \<Rightarrow>
                                    (Sent tx_hash, [SignCall (c_tx ck), BroadcastCall raw]))))))"

definition send_ctxc ::
  "web3 \<Rightarrow> (string \<times> string) list \<Rightarrow> account \<Rightarrow> int \<Rightarrow> string list \<Rightarrow> outcome \<times> event list" where
  "send_ctxc w3 favs acct chain_id stdin =
     (case prepare w3 favs acct chain_id stdin of
        Inl out \<Rightarrow> (out, [])
      | Inr ck \<Rightarrow> submit w3 acct ck)"

section \<open>A sample node, for the scenarios\<close>

definition demo_w3 :: web3 where
  \<comment> \<open>a node with base fee 100 gwei whose priority-fee query fails, a balance of one
      unit, and an address check that rejects exactly the address \<^verbatim>\<open>bad\<close>\<close>
  "demo_w3 =
     \<lparr>to_checksum_address = (\<lambda>a. if a = ''bad'' then Inl ValueError else Inr a),
      get_balance = (\<lambda>a. Inr 1000000000000000000),
      get_transaction_count = (\<lambda>a. Inr 7),
      get_block_latest = Inr (Some 100000000000),
      max_priority_fee = Inl OtherError,
      gas_price = Inr 5000000000,
      sign_transaction = (\<lambda>t k. Inr \<lparr>rawTransaction = Some ''raw'', raw_transaction = None\<rparr>),
      send_raw_transaction = (\<lambda>raw. Inr ''hash'')\<rparr>"


definition demo_from_key :: "string \<Rightarrow> pyexn + account" where
  \<comment> \<open>a key derivation that rejects exactly the key \<^verbatim>\<open>malformed\<close>\<close>
  "demo_from_key v =
     (if v = ''malformed'' then Inl ValueError else Inr \<lparr>address = ''0x'' @ v, key = v\<rparr>)"

definition demo_acct :: account where
  "demo_acct = \<lparr>address = ''0xA'', key = ''k''\<rparr>"

definition demo_tx :: "int \<Rightarrow> tx" where
  \<comment> \<open>the dynamic-fee transfer of \<open>v\<close> that \<open>build_tx\<close> makes on the sample node\<close>
  "demo_tx v =
     \<lparr>tx_from = ''0xA'', tx_to = ''0xB'', tx_value = v, tx_nonce = 7, tx_gas = 21000,
      gasPrice = None, maxFeePerGas = Some 202000000000,
      maxPriorityFeePerGas = Some 2000000000, chainId = 21\<rparr>"

section \<open>Evaluation\<close>

lemmas decimal_eval =
  dec_fix_def Etop_def Etiny_def Emax_def Emin_def ndigits.simps round_half_even_def
  dec_to_int_def dec_exceeds_def MAX_WEI_def

lemmas string_eval =
  is_space_def strip_def lower_char_def lower_def is_digit_def isdigit_def digit_val_def
  nat_of_digits_def startswith_def

lemmas parse_eval =
  split_digits_def parse_exponent_def parse_number_def parse_unsigned_def parse_decimal_def

lemmas unit_eval =
  to_wei_def to_wei_dec_def ten_pow_18_def from_wei_def dec_of_int_def dec_div_fin_def
  strip_zeros.simps

section \<open>Fee selection: the quotes \<^verbatim>\<open>build_tx\<close> produces\<close>

lemma two_gwei_value: "two_gwei = Inr 2000000000"
  by (simp add: two_gwei_def web3_to_wei_gwei_def decimal_eval)

lemma select_priority_auto:
  "select_priority w3 None =
     Inr (case max_priority_fee w3 of Inl _ \<Rightarrow> 2000000000 | Inr p \<Rightarrow> int p)"
  by (simp add: select_priority_def two_gwei_value split: sum.splits)

lemma select_gas_price_value:
  "select_gas_price w3 = Inr (case gas_price w3 of Inl _ \<Rightarrow> 2000000000 | Inr g \<Rightarrow> int g)"
  by (simp add: select_gas_price_def two_gwei_value split: sum.splits)

lemma build_tx_returns_without_tip:
  "\<exists>t m. build_tx w3 from_addr to_addr value_wei nonce chain_id None = Inr (t, m)"
  by (cases "get_block_latest w3")
     (auto simp: build_tx_def select_priority_auto select_gas_price_value split: option.splits)

text \<open>
  C3. Whenever the latest block has a base fee \<open>b\<close> and the priority-fee step yields
  \<open>priority\<close>, \<open>build_tx\<close> returns a dynamic-fee transaction with
  \<open>maxFeePerGas = 2 * b + priority\<close> and \<open>maxPriorityFeePerGas = priority\<close>, and the
  former is at least the latter.
\<close>

theorem dynamic_quote:
  assumes "get_block_latest w3 = Inr (Some b)"
    and "select_priority w3 tip = Inr priority"
  shows "\<exists>t. build_tx w3 from_addr to_addr value_wei nonce chain_id tip = Inr (t, Eip1559)
           \<and> maxFeePerGas t = Some (2 * int b + priority)
           \<and> maxPriorityFeePerGas t = Some priority
           \<and> 2 * int b + priority \<ge> priority
           \<and> gasPrice t = None"
  using assms by (simp add: build_tx_def)

theorem dynamic_quote_witness:
  "\<exists>t. build_tx demo_w3 ''a'' ''b'' 5 7 21 None = Inr (t, Eip1559)
       \<and> maxFeePerGas t = Some 202000000000 \<and> maxPriorityFeePerGas t = Some 2000000000"
proof -
  have b: "get_block_latest demo_w3 = Inr (Some 100000000000)"
    by (simp add: demo_w3_def)
  have p: "select_priority demo_w3 None = Inr 2000000000"
    by (simp add: select_priority_auto demo_w3_def)
  from dynamic_quote [OF b p, of "''a''" "''b''" 5 7 21] show ?thesis
    by auto
qed

text \<open>
  C6. Under the dynamic model the priority fee of the transaction is: the explicit tip
  converted from gwei when one is given (the transaction is built exactly when that
  conversion succeeds); otherwise the node's suggested priority fee; and 2 gwei,
  \<open>2000000000\<close>, when that query fails.
\<close>

theorem priority_fallback_chain:
  assumes "get_block_latest w3 = Inr (Some b)"
  shows "(case tip of
            Some t \<Rightarrow>
              (case web3_to_wei_gwei t of
                 Inr p \<Rightarrow>
                   map_sum id (maxPriorityFeePerGas \<circ> fst)
                     (build_tx w3 from_addr to_addr value_wei nonce chain_id tip) = Inr (Some p)
               | Inl ex \<Rightarrow>
                   build_tx w3 from_addr to_addr value_wei nonce chain_id tip = Inl ex)
          | None \<Rightarrow>
              map_sum id (maxPriorityFeePerGas \<circ> fst)
                (build_tx w3 from_addr to_addr value_wei nonce chain_id tip) =
              Inr (Some (case max_priority_fee w3 of Inr q \<Rightarrow> int q | Inl _ \<Rightarrow> 2000000000)))"
  using assms
  by (auto simp: build_tx_def select_priority_def two_gwei_value split: option.splits sum.splits)

theorem priority_fallback_chain_witness:
  "map_sum id (maxPriorityFeePerGas \<circ> fst) (build_tx demo_w3 ''a'' ''b'' 5 7 21 None)
     = Inr (Some 2000000000)
   \<and> map_sum id (maxPriorityFeePerGas \<circ> fst)
       (build_tx demo_w3 ''a'' ''b'' 5 7 21 (Some (Fin False 15 (- 1))))
     = Inr (Some 1500000000)"
proof -
  have b: "get_block_latest demo_w3 = Inr (Some 100000000000)"
    by (simp add: demo_w3_def)
  have q: "max_priority_fee demo_w3 = Inl OtherError"
    by (simp add: demo_w3_def)
  have c: "web3_to_wei_gwei (Fin False 15 (- 1)) = Inr 1500000000"
    by (simp add: web3_to_wei_gwei_def decimal_eval)
  from priority_fallback_chain [OF b, where tip = None and from_addr = "''a''"
      and to_addr = "''b''" and value_wei = 5 and nonce = 7 and chain_id = 21]
    priority_fallback_chain [OF b, where tip = "Some (Fin False 15 (- 1))"
      and from_addr = "''a''" and to_addr = "''b''" and value_wei = 5 and nonce = 7
      and chain_id = 21]
  show ?thesis
    by (simp add: q c)
qed



text \<open>
  C8. The fee selection does raise: an explicit tip of \<open>-1\<close> gwei is rejected by the
  unit conversion of line 299, which no \<^verbatim>\<open>try\<close> encloses, whatever the node
  answers.
\<close>

theorem build_tx_raises_on_negative_tip:
  "build_tx w3 from_addr to_addr value_wei nonce chain_id (Some (Fin True 1 0)) = Inl ValueError"
proof -
  have "web3_to_wei_gwei (Fin True 1 0) = Inl ValueError"
    by (simp add: web3_to_wei_gwei_def decimal_eval)
  then show ?thesis
    by (simp add: build_tx_def select_priority_def)
qed

section \<open>Submission: what \<^verbatim>\<open>send_ctxc\<close> does before it signs\<close>

lemma estimated_fee_value:
  "estimated_fee t = Inr f \<Longrightarrow>
     (\<exists>g. gasPrice t = Some g \<and> f = tx_gas t * g) \<or>
     (\<exists>m. gasPrice t = None \<and> maxFeePerGas t = Some m \<and> f = tx_gas t * m)"
  by (auto simp: estimated_fee_def split: option.splits sum.splits)

lemma build_tx_fields:
  "build_tx w3 from_addr to_addr value_wei nonce chain_id tip = Inr (t, m) \<Longrightarrow>
     tx_gas t = 21000 \<and> tx_value t = value_wei"
  by (auto simp: build_tx_def Let_def split: option.splits sum.splits)

lemma prepare_Inr:
  assumes "prepare w3 favs acct chain_id stdin = Inr ck"
  shows "\<exists>from_addr to_addr nonce tip m b.
           to_checksum_address w3 (address acct) = Inr from_addr
         \<and> build_tx w3 from_addr to_addr (c_value_wei ck) nonce chain_id tip = Inr (c_tx ck, m)
         \<and> estimated_fee (c_tx ck) = Inr (c_est_fee ck)
         \<and> get_balance w3 from_addr = Inr b \<and> c_balance ck = int b"
  using assms unfolding prepare_def read_amount_def
  by (fastforce split: sum.splits list.splits prod.splits)

lemma prepare_failure_is_silent:
  "prepare w3 favs acct chain_id stdin = Inl out \<Longrightarrow>
     send_ctxc w3 favs acct chain_id stdin = (out, [])"
  by (simp add: send_ctxc_def)

lemma signing_requires_funds_and_consent:
  assumes "snd (send_ctxc w3 favs acct chain_id stdin) \<noteq> []"
  shows "\<exists>ck answer rest. prepare w3 favs acct chain_id stdin = Inr ck
           \<and> c_value_wei ck + c_est_fee ck \<le> c_balance ck
           \<and> c_stdin ck = answer # rest \<and> lower (strip answer) = ''ya''"
proof (cases "prepare w3 favs acct chain_id stdin")
  case (Inl out)
  with assms show ?thesis
    by (simp add: send_ctxc_def)
next
  case (Inr ck)
  with assms have s: "snd (submit w3 acct ck) \<noteq> []"
    by (simp add: send_ctxc_def)
  then have f: "c_value_wei ck + c_est_fee ck \<le> c_balance ck"
    by (cases "c_balance ck < c_value_wei ck + c_est_fee ck") (simp_all add: submit_def)
  with s obtain answer rest where a: "c_stdin ck = answer # rest"
    by (cases "c_stdin ck") (simp_all add: submit_def)
  with s f have "lower (strip answer) = ''ya''"
    by (cases "lower (strip answer) = ''ya''") (simp_all add: submit_def)
  with Inr f a show ?thesis
    by simp
qed

lemma demo_from_wei:
  "from_wei 1000000000000000000 = Inr (Fin False 1 0)"
  "from_wei 900000000000000000 = Inr (Fin False 9 (- 1))"
  "from_wei 4242000000000000 = Inr (Fin False 4242 (- 6))"
  "from_wei 1004242000000000000 = Inr (Fin False 1004242 (- 6))"
  "from_wei 904242000000000000 = Inr (Fin False 904242 (- 6))"
  by (simp_all add: unit_eval decimal_eval)

lemma demo_to_wei:
  "to_wei ''1.0'' = Inr 1000000000000000000"
  "to_wei ''0.9'' = Inr 900000000000000000"
  by (simp_all add: unit_eval parse_eval string_eval decimal_eval)

lemma demo_build_tx:
  "build_tx demo_w3 ''0xA'' ''0xB'' v 7 21 None = Inr (demo_tx v, Eip1559)"
  by (simp add: build_tx_def select_priority_auto demo_w3_def demo_tx_def)

lemma demo_pick:
  "pick_destination demo_w3 [] (''2'' # ''0xB'' # rest) = Inr (''0xB'', rest)"
  by (simp add: pick_destination_def demo_w3_def string_eval)

lemma demo_node:
  "to_checksum_address demo_w3 ''0xA'' = Inr ''0xA''"
  "get_transaction_count demo_w3 a = Inr 7"
  "get_balance demo_w3 a = Inr 1000000000000000000"
  by (simp_all add: demo_w3_def)

lemma demo_fee: "estimated_fee (demo_tx v) = Inr 4242000000000000"
  by (simp add: estimated_fee_def web3_from_wei_gwei_def MAX_WEI_def demo_tx_def)

lemma demo_prepare_whole_unit:
  "prepare demo_w3 [] demo_acct 21 (''2'' # ''0xB'' # ''1.0'' # '''' # rest) =
     Inr \<lparr>c_tx = demo_tx 1000000000000000000, c_value_wei = 1000000000000000000,
          c_est_fee = 4242000000000000, c_balance = 1000000000000000000, c_stdin = rest\<rparr>"
  by (simp add: prepare_def demo_pick demo_node read_amount_def read_tip_def demo_to_wei demo_build_tx
      demo_fee print_summary_def demo_from_wei demo_acct_def string_eval)

lemma demo_prepare_affordable:
  "prepare demo_w3 [] demo_acct 21 (''2'' # ''0xB'' # ''0.9'' # '''' # rest) =
     Inr \<lparr>c_tx = demo_tx 900000000000000000, c_value_wei = 900000000000000000,
          c_est_fee = 4242000000000000, c_balance = 1000000000000000000, c_stdin = rest\<rparr>"
  by (simp add: prepare_def demo_pick demo_node read_amount_def read_tip_def demo_to_wei demo_build_tx
      demo_fee print_summary_def demo_from_wei demo_acct_def string_eval)

lemma demo_accepted_transfer:
  "send_ctxc demo_w3 [] demo_acct 21 [''2'', ''0xB'', ''0.9'', '''', '' Ya '']
     = (Sent ''hash'', [SignCall (demo_tx 900000000000000000), BroadcastCall ''raw''])"
proof -
  have "submit demo_w3 demo_acct
          \<lparr>c_tx = demo_tx 900000000000000000, c_value_wei = 900000000000000000,
           c_est_fee = 4242000000000000, c_balance = 1000000000000000000,
           c_stdin = ['' Ya '']\<rparr>
        = (Sent ''hash'', [SignCall (demo_tx 900000000000000000), BroadcastCall ''raw''])"
    by (simp add: submit_def string_eval extract_raw_def demo_w3_def)
  then show ?thesis
    unfolding send_ctxc_def demo_prepare_affordable by simp
qed

text \<open>
  C1. If a run of \<open>send_ctxc\<close> reaches the comparison of line 390 with a queried
  balance below the value plus the estimated fee, it ends with the insufficient-funds
  message and has called neither the signer nor the broadcast. The balance is the one
  the node reported for the sender, the value is the transaction's, and the estimated
  fee is \<open>21000\<close> times \<open>gasPrice\<close> for a legacy transaction and \<open>21000\<close> times
  \<open>maxFeePerGas\<close> for a dynamic one.
\<close>

theorem insufficient_funds_stops:
  assumes "prepare w3 favs acct chain_id stdin = Inr ck"
    and "c_balance ck < c_value_wei ck + c_est_fee ck"
  shows "send_ctxc w3 favs acct chain_id stdin = (InsufficientFunds, [])
       \<and> (\<exists>from_addr b. to_checksum_address w3 (address acct) = Inr from_addr
             \<and> get_balance w3 from_addr = Inr b \<and> c_balance ck = int b)
       \<and> tx_value (c_tx ck) = c_value_wei ck
       \<and> ((\<exists>g. gasPrice (c_tx ck) = Some g \<and> c_est_fee ck = 21000 * g)
          \<or> (\<exists>m. gasPrice (c_tx ck) = None \<and> maxFeePerGas (c_tx ck) = Some m
                \<and> c_est_fee ck = 21000 * m))"
proof -
  have "send_ctxc w3 favs acct chain_id stdin = (InsufficientFunds, [])"
    using assms by (simp add: send_ctxc_def submit_def)
  moreover from prepare_Inr [OF assms(1)] obtain from_addr to_addr nonce tip m b where
    f: "to_checksum_address w3 (address acct) = Inr from_addr"
    and t: "build_tx w3 from_addr to_addr (c_value_wei ck) nonce chain_id tip = Inr (c_tx ck, m)"
    and e: "estimated_fee (c_tx ck) = Inr (c_est_fee ck)"
    and b: "get_balance w3 from_addr = Inr b" "c_balance ck = int b"
    by blast
  moreover from build_tx_fields [OF t]
  have g: "tx_gas (c_tx ck) = 21000" "tx_value (c_tx ck) = c_value_wei ck"
    by simp_all
  moreover from estimated_fee_value [OF e] g
  have "(\<exists>g. gasPrice (c_tx ck) = Some g \<and> c_est_fee ck = 21000 * g)
          \<or> (\<exists>m. gasPrice (c_tx ck) = None \<and> maxFeePerGas (c_tx ck) = Some m
                \<and> c_est_fee ck = 21000 * m)"
    by simp
  ultimately show ?thesis
    by blast
qed

theorem insufficient_funds_stops_witness:
  "send_ctxc demo_w3 [] demo_acct 21 [''2'', ''0xB'', ''1.0'', '''', ''YA'']
     = (InsufficientFunds, [])"
  using insufficient_funds_stops [OF demo_prepare_whole_unit] by simp

text \<open>
  C2. If a run of \<open>send_ctxc\<close> passes the balance check and the answer to the
  confirmation prompt, stripped and lower-cased, is anything but \<^verbatim>\<open>ya\<close>, it ends
  with the cancellation message and has called neither the signer nor the broadcast.
\<close>

theorem declined_confirmation_stops:
  assumes "prepare w3 favs acct chain_id stdin = Inr ck"
    and "\<not> c_balance ck < c_value_wei ck + c_est_fee ck"
    and "c_stdin ck = answer # rest"
    and "lower (strip answer) \<noteq> ''ya''"
  shows "send_ctxc w3 favs acct chain_id stdin = (UserCancelled, [])"
  using assms by (simp add: send_ctxc_def submit_def)

theorem declined_confirmation_stops_witness:
  "send_ctxc demo_w3 [] demo_acct 21 [''2'', ''0xB'', ''0.9'', '''', ''yes'']
     = (UserCancelled, [])"
proof -
  have "lower (strip ''yes'') \<noteq> ''ya''"
    by (simp add: string_eval)
  with declined_confirmation_stops [OF demo_prepare_affordable, of "[''yes'']" "''yes''" "[]"]
  show ?thesis
    by simp
qed

section \<open>Key registry: what \<^verbatim>\<open>load_accounts\<close> returns\<close>

lemma map_of_dict_set: "map_of (dict_set d k v) = (map_of d)(k \<mapsto> v)"
  by (induction d) (auto simp: fun_eq_iff)

lemma keys_dict_set: "fst ` set (dict_set d k v) = insert k (fst ` set d)"
  by (induction d) force+

lemma distinct_dict_set:
  "distinct (map fst d) \<Longrightarrow> distinct (map fst (dict_set d k v))"
proof (induction d)
  case Nil
  then show ?case by simp
next
  case (Cons p d)
  obtain k' v' where p: "p = (k', v')" by (cases p)
  show ?case
  proof (cases "k' = k")
    case True
    with Cons.prems p show ?thesis by simp
  next
    case False
    from Cons.prems p have "k' \<notin> fst ` set d" and "distinct (map fst d)"
      by simp_all
    with False Cons.IH p keys_dict_set [of d k v] show ?thesis
      by auto
  qed
qed

lemma fold_dict_set_map_of:
  "map_of (fold (\<lambda>(n, a) d. dict_set d n a) xs d) = map_of d ++ map_of (rev xs)"
proof (induction xs arbitrary: d)
  case Nil
  then show ?case by simp
next
  case (Cons x xs)
  obtain n a where x: "x = (n, a)" by (cases x)
  have "map_of (fold (\<lambda>(n, a) d. dict_set d n a) (x # xs) d)
        = map_of (dict_set d n a) ++ map_of (rev xs)"
    using Cons.IH [of "dict_set d n a"] x by simp
  also have "\<dots> = map_of d ++ map_of (rev (x # xs))"
    by (simp add: map_of_dict_set x map_add_def fun_eq_iff split: option.splits)
  finally show ?case .
qed

lemma fold_dict_set_distinct:
  "distinct (map fst d) \<Longrightarrow> distinct (map fst (fold (\<lambda>(n, a) d. dict_set d n a) xs d))"
  by (induction xs arbitrary: d) (auto simp: distinct_dict_set)

lemma fold_load_named:
  "fold (load_named w3 fk) environ reg =
     (fold (\<lambda>(n, a) d. dict_set d n a) (accepted w3 fk (named_candidates environ)) (fst reg),
      snd reg @ rejected w3 fk (named_candidates environ))"
proof (induction environ arbitrary: reg)
  case Nil
  then show ?case
    by (simp add: accepted_def rejected_def named_candidates_def)
next
  case (Cons kv environ)
  obtain k v where kv: "kv = (k, v)" by (cases kv)
  show ?case
    unfolding fold_simps Cons.IH
    by (auto simp: kv load_named_def accepted_def rejected_def named_candidates_def Let_def
        split: sum.splits)
qed

lemma load_legacy_eq:
  "load_legacy w3 fk environ =
     (accepted w3 fk (legacy_candidate environ), rejected w3 fk (legacy_candidate environ))"
  by (auto simp: load_legacy_def legacy_candidate_def accepted_def rejected_def
      split: option.splits sum.splits)

lemma accepted_legacy_distinct: "distinct (map fst (accepted w3 fk (legacy_candidate environ)))"
  by (auto simp: legacy_candidate_def accepted_def split: option.splits sum.splits)

lemma rev_accepted_legacy:
  "rev (accepted w3 fk (legacy_candidate environ)) = accepted w3 fk (legacy_candidate environ)"
  by (auto simp: legacy_candidate_def accepted_def split: option.splits sum.splits)

lemma accepted_append: "accepted w3 fk (xs @ ys) = accepted w3 fk xs @ accepted w3 fk ys"
  by (simp add: accepted_def)

lemma rejected_append: "rejected w3 fk (xs @ ys) = rejected w3 fk xs @ rejected w3 fk ys"
  by (simp add: rejected_def)

lemma fold_registry:
  "fold (load_named w3 fk) environ (load_legacy w3 fk environ) = reg \<Longrightarrow>
     map_of (fst reg) = map_of (rev (accepted w3 fk (candidates environ)))
     \<and> distinct (map fst (fst reg))
     \<and> snd reg = rejected w3 fk (candidates environ)"
  unfolding fold_load_named load_legacy_eq
  by (auto simp: fold_dict_set_map_of fold_dict_set_distinct accepted_legacy_distinct
      candidates_def accepted_append rejected_append rev_accepted_legacy)

lemma length_accepted_legacy_le: "length (accepted w3 fk (legacy_candidate environ)) \<le> 1"
  by (auto simp: legacy_candidate_def accepted_def split: option.splits sum.splits)

lemma sort_key_fst_distinct:
  "distinct (map fst xs) \<Longrightarrow> distinct (map fst (sort_key f xs))"
  by (metis distinct_map distinct_sort set_sort)

lemma sort_key_map_of:
  assumes "distinct (map fst xs)"
  shows "map_of (sort_key f xs) = map_of xs"
  using assms map_of_inject_set [of "sort_key f xs" xs] sort_key_fst_distinct [OF assms, of f]
  by simp

lemma load_accounts_char:
  "map_of (fst (load_accounts w3 fk environ)) = map_of (rev (accepted w3 fk (candidates environ)))
   \<and> distinct (map fst (fst (load_accounts w3 fk environ)))
   \<and> sorted (map (\<lambda>x. lower (fst x)) (fst (load_accounts w3 fk environ)))
   \<and> snd (load_accounts w3 fk environ) = rejected w3 fk (candidates environ)"
proof -
  define reg where "reg = fold (load_named w3 fk) environ (load_legacy w3 fk environ)"
  from fold_registry [OF reg_def [symmetric]]
  have m: "map_of (fst reg) = map_of (rev (accepted w3 fk (candidates environ)))"
    and d: "distinct (map fst (fst reg))"
    and w: "snd reg = rejected w3 fk (candidates environ)"
    by simp_all
  have R: "load_accounts w3 fk environ = (sort_key (\<lambda>x. lower (fst x)) (fst reg), snd reg)"
    by (simp add: load_accounts_def reg_def Let_def)
  show ?thesis
    unfolding R using m w
    by (simp add: sort_key_map_of [OF d] sort_key_fst_distinct [OF d])
qed

lemma accepted_names: "fst ` set (accepted w3 fk cands) \<subseteq> fst ` set cands"
  by (force simp: accepted_def split: sum.splits)

lemma accepted_distinct:
  "distinct (map fst cands) \<Longrightarrow> distinct (map fst (accepted w3 fk cands))"
proof (induction cands)
  case Nil
  then show ?case by (simp add: accepted_def)
next
  case (Cons c cands)
  obtain n k v where c: "c = (n, k, v)" by (cases c)
  have split: "accepted w3 fk (c # cands) = accepted w3 fk [c] @ accepted w3 fk cands"
    by (simp add: accepted_def)
  from Cons.prems c have "n \<notin> fst ` set cands" and "distinct (map fst cands)"
    by simp_all
  with accepted_names [of w3 fk cands] Cons.IH
  have "n \<notin> fst ` set (accepted w3 fk cands)" and "distinct (map fst (accepted w3 fk cands))"
    by auto
  then show ?case
    unfolding split by (auto simp: accepted_def c split: sum.splits)
qed

lemma same_map_same_length:
  assumes "distinct (map fst xs)" and "distinct (map fst ys)" and "map_of xs = map_of ys"
  shows "length xs = length ys \<and> set xs = set ys"
proof -
  from assms have s: "set xs = set ys"
    by (simp add: map_of_inject_set)
  from assms(1,2) have "distinct xs" and "distinct ys"
    by (simp_all add: distinct_map)
  then have "length xs = card (set xs)" and "length ys = card (set ys)"
    by (simp_all add: distinct_card)
  with s show ?thesis by simp
qed

text \<open>
  C9, as the code has it. \<open>load_accounts\<close> always returns. For each name the
  registry holds the account of the last accepted credential of that name, so a later
  valid credential replaces an earlier one of the same name; every entry is an accepted
  credential; the names are distinct and sorted by their lower-cased form; there is
  exactly one warning for each credential tried and rejected, in the order tried. When
  the credentials tried have distinct names, the registry holds exactly the accepted
  ones.
\<close>

theorem load_accounts_registry:
  "map_of (fst (load_accounts w3 fk environ)) = map_of (rev (accepted w3 fk (candidates environ)))
   \<and> distinct (map fst (fst (load_accounts w3 fk environ)))
   \<and> sorted (map (\<lambda>x. lower (fst x)) (fst (load_accounts w3 fk environ)))
   \<and> snd (load_accounts w3 fk environ) = rejected w3 fk (candidates environ)
   \<and> (distinct (map fst (candidates environ)) \<longrightarrow>
        length (fst (load_accounts w3 fk environ)) = length (accepted w3 fk (candidates environ))
        \<and> set (fst (load_accounts w3 fk environ)) = set (accepted w3 fk (candidates environ)))"
proof -
  note c = load_accounts_char [of w3 fk environ]
  have "length (fst (load_accounts w3 fk environ)) = length (accepted w3 fk (candidates environ))
        \<and> set (fst (load_accounts w3 fk environ)) = set (accepted w3 fk (candidates environ))"
    if "distinct (map fst (candidates environ))"
  proof -
    from accepted_distinct [OF that]
    have "distinct (map fst (rev (accepted w3 fk (candidates environ))))"
      by (simp add: rev_map [symmetric])
    with same_map_same_length [of "fst (load_accounts w3 fk environ)"
        "rev (accepted w3 fk (candidates environ))"] c
    show ?thesis by simp
  qed
  with c show ?thesis by blast
qed

lemmas registry_eval =
  load_accounts_def load_legacy_def load_named_def getenv_def cred_name_def derive_account_def
  demo_from_key_def demo_w3_def candidates_def legacy_candidate_def named_candidates_def
  accepted_def rejected_def less_eq_list_code less_list_code less_char_def less_eq_char_def

theorem load_accounts_registry_witness:
  "length (fst (load_accounts demo_w3 demo_from_key
      [(''CTXC_PK_Carol'', ''k1''), (''CTXC_PK_bob'', ''k2''), (''CTXC_PK_X'', ''malformed'')])) = 2
   \<and> snd (load_accounts demo_w3 demo_from_key
      [(''CTXC_PK_Carol'', ''k1''), (''CTXC_PK_bob'', ''k2''), (''CTXC_PK_X'', ''malformed'')])
     = [(''CTXC_PK_X'', ValueError)]"
proof -
  let ?env = "[(''CTXC_PK_Carol'', ''k1''), (''CTXC_PK_bob'', ''k2''), (''CTXC_PK_X'', ''malformed'')]"
  have c: "candidates ?env =
      [(''Carol'', ''CTXC_PK_Carol'', ''k1''), (''bob'', ''CTXC_PK_bob'', ''k2''),
       (''X'', ''CTXC_PK_X'', ''malformed'')]"
    by (simp add: registry_eval string_eval)
  have a: "length (accepted demo_w3 demo_from_key (candidates ?env)) = 2"
    unfolding c by (simp add: registry_eval)
  have r: "rejected demo_w3 demo_from_key (candidates ?env) = [(''CTXC_PK_X'', ValueError)]"
    unfolding c by (simp add: registry_eval)
  have d: "distinct (map fst (candidates ?env))"
    unfolding c by simp
  from load_accounts_registry [of demo_w3 demo_from_key ?env] d a r show ?thesis
    by simp
qed

lemma demo_registry_sorted:
  "load_accounts demo_w3 demo_from_key
      [(''CTXC_PK_Carol'', ''k1''), (''CTXC_PK_bob'', ''k2''), (''CTXC_PK_X'', ''malformed'')]
   = ([(''bob'', \<lparr>address = ''0xk2'', key = ''k2''\<rparr>),
       (''Carol'', \<lparr>address = ''0xk1'', key = ''k1''\<rparr>)],
      [(''CTXC_PK_X'', ValueError)])"
  by (simp add: registry_eval string_eval)

text \<open>
  C9 as stated fails: three credentials, all valid, give a registry of two entries and
  no warning, because \<^verbatim>\<open>CTXC_PK_LEGACY\<close> takes the place of \<^verbatim>\<open>CTXC_PRIVATE_KEY\<close>.
\<close>

theorem not_every_valid_credential_loaded:
  "derive_account demo_w3 demo_from_key ''k1'' = Inr \<lparr>address = ''0xk1'', key = ''k1''\<rparr>
   \<and> load_accounts demo_w3 demo_from_key
        [(''CTXC_PRIVATE_KEY'', ''k1''), (''CTXC_PK_LEGACY'', ''k2''), (''CTXC_PK_MAIN'', ''k3'')]
     = ([(''LEGACY'', \<lparr>address = ''0xk2'', key = ''k2''\<rparr>),
         (''MAIN'', \<lparr>address = ''0xk3'', key = ''k3''\<rparr>)], [])"
  by (simp add: registry_eval string_eval)

lemma map_of_single_value:
  assumes "(n, a) \<in> set xs" and "\<And>a'. (n, a') \<in> set xs \<Longrightarrow> a' = a"
  shows "map_of (xs @ ys) n = Some a"
proof -
  from assms(1) obtain a' where s: "map_of xs n = Some a'"
    using weak_map_of_SomeI by fastforce
  then have "(n, a') \<in> set xs"
    by (rule map_of_SomeD)
  with assms(2) s show ?thesis
    by (simp add: map_add_Some_iff)
qed

lemma filter_key_distinct:
  "distinct (map fst xs) \<Longrightarrow> map_of xs n = Some a \<Longrightarrow> filter (\<lambda>x. fst x = n) xs = [(n, a)]"
proof (induction xs)
  case Nil
  then show ?case by simp
next
  case (Cons x xs)
  obtain k v where x: "x = (k, v)" by (cases x)
  show ?case
  proof (cases "k = n")
    case True
    with Cons.prems x have "n \<notin> fst ` set xs" and "v = a"
      by auto
    then have "filter (\<lambda>x. fst x = n) xs = []"
      by (auto simp: filter_empty_conv)
    with True x \<open>v = a\<close> show ?thesis by simp
  next
    case False
    with Cons x show ?thesis by simp
  qed
qed

lemma cred_name_LEGACY: "cred_name ''CTXC_PK_LEGACY'' = ''LEGACY''"
  by (simp add: cred_name_def string_eval)

lemma startswith_LEGACY: "startswith ''CTXC_PK_LEGACY'' ''CTXC_PK_''"
  by (simp add: startswith_def)

lemma accepted_named_iff:
  "(n, a) \<in> set (accepted w3 fk (named_candidates environ)) \<longleftrightarrow>
     (\<exists>k v. (k, v) \<in> set environ \<and> startswith k ''CTXC_PK_'' \<and> cred_name k = n \<and> n \<noteq> []
            \<and> v \<noteq> [] \<and> derive_account w3 fk v = Inr a)"
  by (force simp: accepted_def named_candidates_def split: sum.splits)

text \<open>
  C10. When the environment (a dictionary) holds a valid \<^verbatim>\<open>CTXC_PRIVATE_KEY\<close> and a
  valid \<^verbatim>\<open>CTXC_PK_LEGACY\<close>, and no other variable is named \<^verbatim>\<open>LEGACY\<close> once prefix and
  white space are removed, the registry has one entry named \<^verbatim>\<open>LEGACY\<close> and it holds the
  account of \<^verbatim>\<open>CTXC_PK_LEGACY\<close>.
\<close>

theorem named_legacy_overwrites:
  assumes dict: "distinct (map fst environ)"
    and legacy: "getenv environ ''CTXC_PRIVATE_KEY'' = Some k1" "k1 \<noteq> []"
      "derive_account w3 fk k1 = Inr a1"
    and named: "getenv environ ''CTXC_PK_LEGACY'' = Some k2" "k2 \<noteq> []"
      "derive_account w3 fk k2 = Inr a2"
    and only: "\<And>k v. (k, v) \<in> set environ \<Longrightarrow> startswith k ''CTXC_PK_'' \<Longrightarrow>
                 cred_name k = ''LEGACY'' \<Longrightarrow> k = ''CTXC_PK_LEGACY''"
  shows "filter (\<lambda>x. fst x = ''LEGACY'') (fst (load_accounts w3 fk environ)) = [(''LEGACY'', a2)]"
proof -
  let ?named = "accepted w3 fk (named_candidates environ)"
  from named(1) have m: "(''CTXC_PK_LEGACY'', k2) \<in> set environ"
    by (simp add: getenv_def map_of_SomeD)
  with named(2,3) cred_name_LEGACY startswith_LEGACY
  have "\<exists>k v. (k, v) \<in> set environ \<and> startswith k ''CTXC_PK_'' \<and> cred_name k = ''LEGACY''
          \<and> ''LEGACY'' \<noteq> [] \<and> v \<noteq> [] \<and> derive_account w3 fk v = Inr a2"
    by blast
  then have 1: "(''LEGACY'', a2) \<in> set (rev ?named)"
    by (simp add: accepted_named_iff)
  have 2: "a' = a2" if "(''LEGACY'', a') \<in> set (rev ?named)" for a'
  proof -
    from that obtain k v where kv: "(k, v) \<in> set environ" "startswith k ''CTXC_PK_''"
      "cred_name k = ''LEGACY''" "derive_account w3 fk v = Inr a'"
      by (auto simp: accepted_named_iff)
    from only [OF kv(1-3)] have "k = ''CTXC_PK_LEGACY''" .
    with kv(1) dict named(1) have "v = k2"
      by (simp add: getenv_def)
    with kv(4) named(3) show ?thesis by simp
  qed
  have "map_of (rev (accepted w3 fk (candidates environ))) ''LEGACY'' = Some a2"
    unfolding candidates_def accepted_append rev_append
    by (rule map_of_single_value [OF 1 2])
  with load_accounts_char [of w3 fk environ]
  show ?thesis
    by (simp add: filter_key_distinct)
qed

theorem named_legacy_overwrites_witness:
  "filter (\<lambda>x. fst x = ''LEGACY'')
     (fst (load_accounts demo_w3 demo_from_key
        [(''CTXC_PRIVATE_KEY'', ''old''), (''CTXC_PK_LEGACY'', ''new'')]))
   = [(''LEGACY'', \<lparr>address = ''0xnew'', key = ''new''\<rparr>)]"
proof -
  let ?env = "[(''CTXC_PRIVATE_KEY'', ''old''), (''CTXC_PK_LEGACY'', ''new'')]"
  have only: "k = ''CTXC_PK_LEGACY''"
    if "(k, v) \<in> set ?env" "startswith k ''CTXC_PK_''" "cred_name k = ''LEGACY''" for k v
    using that by (auto simp: startswith_def)
  have d: "distinct (map fst ?env)"
    by simp
  have l: "getenv ?env ''CTXC_PRIVATE_KEY'' = Some ''old''" "''old'' \<noteq> []"
    "derive_account demo_w3 demo_from_key ''old'' = Inr \<lparr>address = ''0xold'', key = ''old''\<rparr>"
    by (simp_all add: getenv_def derive_account_def demo_from_key_def demo_w3_def)
  have n: "getenv ?env ''CTXC_PK_LEGACY'' = Some ''new''" "''new'' \<noteq> []"
    "derive_account demo_w3 demo_from_key ''new'' = Inr \<lparr>address = ''0xnew'', key = ''new''\<rparr>"
    by (simp_all add: getenv_def derive_account_def demo_from_key_def demo_w3_def)
  from named_legacy_overwrites [OF d l n only] show ?thesis
    by simp
qed

section \<open>Unit converter: when \<^verbatim>\<open>to_wei\<close> and \<^verbatim>\<open>from_wei\<close> are exact\<close>

lemma ndigits_pos: "0 < ndigits n"
  by (induction n rule: ndigits.induct) (subst ndigits.simps, simp)

lemma ndigits_upper: "n < 10 ^ ndigits n"
proof (induction n rule: ndigits.induct)
  case (1 n)
  show ?case
  proof (cases "n < 10")
    case True
    then show ?thesis by (subst ndigits.simps) simp
  next
    case False
    with 1 have "n div 10 < 10 ^ ndigits (n div 10)" by simp
    then have "n < 10 * 10 ^ ndigits (n div 10)" by linarith
    with False show ?thesis by (subst ndigits.simps) simp
  qed
qed

lemma ndigits_lower: "0 < n \<Longrightarrow> 10 ^ (ndigits n - 1) \<le> n"
proof (induction n rule: ndigits.induct)
  case (1 n)
  show ?case
  proof (cases "n < 10")
    case True
    with 1 show ?thesis by (subst ndigits.simps) simp
  next
    case False
    with 1 have "10 ^ (ndigits (n div 10) - 1) \<le> n div 10" by simp
    then have "10 * 10 ^ (ndigits (n div 10) - 1) \<le> n" by linarith
    moreover have "0 < ndigits (n div 10)" by (rule ndigits_pos)
    then have "(10::nat) * 10 ^ (ndigits (n div 10) - 1) = 10 ^ ndigits (n div 10)"
      by (cases "ndigits (n div 10)") simp_all
    ultimately show ?thesis using False by (subst ndigits.simps) simp
  qed
qed

lemma ndigits_le: "0 < k \<Longrightarrow> n < 10 ^ k \<Longrightarrow> ndigits n \<le> k"
proof (cases "n = 0")
  case True
  assume "0 < k"
  with True show ?thesis by (subst ndigits.simps) simp
next
  case False
  assume "n < 10 ^ k"
  with ndigits_lower [of n] False have "(10::nat) ^ (ndigits n - 1) < 10 ^ k"
    by (simp add: le_less_trans)
  then have "ndigits n - 1 < k"
    by (simp add: power_strict_increasing_iff)
  then show ?thesis by simp
qed








lemma dval_inj: "dval c e = dval c' e \<longleftrightarrow> c = c'"
  by (simp add: dval_def)


























lemma ndigits_eqI:
  assumes "0 < k" and "10 ^ (k - 1) \<le> n" and "n < 10 ^ k"
  shows "ndigits n = k"
proof -
  from assms(1,3) have u: "ndigits n \<le> k" by (rule ndigits_le)
  from assms(2) ndigits_upper [of n] have "(10::nat) ^ (k - 1) < 10 ^ ndigits n"
    by (rule le_less_trans)
  then have "k - 1 < ndigits n"
    by (simp add: power_strict_increasing_iff)
  with u show ?thesis by simp
qed

lemma big_ndigits:
  "ndigits 1000000000000000000000000000000000000000000000000001000000000000000000 = 70"
  "ndigits 1000000000000000000000000000000000000000000000000000000000000000000000 = 70"
  "ndigits 10000000000000000000000000000000000000000000000000 = 50"
  "ndigits 1000000000000000000000000000000000000000000000000000 = 52"
  "ndigits 1000000000000000000 = 19"
  by (rule ndigits_eqI; simp)+

text \<open>
  The 50 digits of the context are a limit too: the amount \<open>10^51 + 1\<close> is rounded in
  the multiplication and comes back as \<open>10^51\<close>.
\<close>

lemma round_trip_loses_precision:
  "to_wei_dec (Fin False 1000000000000000000000000000000000000000000000000001 0)
     = Inr 1000000000000000000000000000000000000000000000000000000000000000000000
   \<and> from_wei 1000000000000000000000000000000000000000000000000000000000000000000000
     = Inr (Fin False 10000000000000000000000000000000000000000000000000 2)
   \<and> \<not> dec_eq (Fin False 10000000000000000000000000000000000000000000000000 2)
         (Fin False 1000000000000000000000000000000000000000000000000001 0)"
  by (simp add: unit_eval dec_fix_def Etop_def Etiny_def Emax_def Emin_def round_half_even_def
      dec_to_int_def big_ndigits dec_eq_def)

end
